theory Spec2Isabelle
  imports Complex_Main
begin

section \<open>JavaScript values observed by the client\<close>

text \<open>
  A JavaScript number, as far as \<^verbatim>\<open>client.ts\<close> looks at it: the only operation on a
  number is the truthiness test \<^verbatim>\<open>!token_amount\<close>, which is true for \<^verbatim>\<open>0\<close>, \<^verbatim>\<open>-0\<close> and
  \<^verbatim>\<open>NaN\<close>. Both zeros are \<open>Finite 0\<close>; \<open>Infinity True\<close> is \<^verbatim>\<open>-Infinity\<close>.
\<close>

datatype js_number = NaN | Infinity bool | Finite rat

definition truthy_number :: "js_number \<Rightarrow> bool" where
  "truthy_number n = (case n of NaN \<Rightarrow> False | Infinity neg \<Rightarrow> True | Finite q \<Rightarrow> q \<noteq> 0)"

text \<open>A string is truthy unless it is empty.\<close>

definition truthy_string :: "string \<Rightarrow> bool" where
  "truthy_string s = (s \<noteq> [])"

text \<open>
  An optional property \<^verbatim>\<open>p?: T\<close> is \<open>None\<close> when the caller leaves it out (or passes
  \<^verbatim>\<open>undefined\<close>); \<^verbatim>\<open>undefined\<close> is falsy.
\<close>

definition truthy :: "('a \<Rightarrow> bool) \<Rightarrow> 'a option \<Rightarrow> bool" where
  "truthy t x = (case x of None \<Rightarrow> False | Some v \<Rightarrow> t v)"

text \<open>\<^verbatim>\<open>s.startsWith(p)\<close> and \<^verbatim>\<open>s.endsWith(p)\<close>.\<close>

definition startsWith :: "string \<Rightarrow> string \<Rightarrow> bool" where
  "startsWith s p = (take (length p) s = p)"

definition endsWith :: "string \<Rightarrow> string \<Rightarrow> bool" where
  "endsWith s p = (length p \<le> length s \<and> drop (length s - length p) s = p)"

text \<open>
  A \<^verbatim>\<open>Date\<close> holds a time value in milliseconds since the epoch, or is an Invalid Date
  (time value \<^verbatim>\<open>NaN\<close>, as \<^verbatim>\<open>new Date('garbage')\<close> gives).
\<close>

datatype js_date = InvalidDate | TimeValue int

text \<open>The open-ended values of a custom field's extra attributes.\<close>

datatype json =
  JNull | JBool bool | JNumber js_number | JString string
  | JArray "json list" | JObject "(string \<times> json) list"

section \<open>The data model of \<^verbatim>\<open>client.ts\<close>\<close>

text \<open>\<^verbatim>\<open>interface CustomField { type: string; [key: string]: any }\<close>\<close>

record CustomField =
  field_type :: string
  attributes :: "(string \<times> json) list"

datatype expiration_value = ExpString string | ExpDate js_date

text \<open>
  \<^verbatim>\<open>interface VerificationOptions\<close>: three required strings, seventeen optional
  properties. (\<open>id\<close> and \<open>chain\<close> are constants of HOL, hence the suffix.)
\<close>

record VerificationOptions =
  id_field :: string
  service_name :: string
  chain_field :: string
  internal_id :: "string option"
  webhook :: "string option"
  expiration :: "expiration_value option"
  secret :: "string option"
  redirect_url :: "string option"
  one_time :: "bool option"
  folder_id :: "string option"
  custom_fields :: "CustomField list option"
  token_gate :: "bool option"
  token_address :: "string option"
  token_amount :: "js_number option"
  is_nft :: "bool option"
  force_email_verification :: "bool option"
  force_telegram_verification :: "bool option"
  force_twitter_verification :: "bool option"
  force_telephone_verification :: "bool option"
  force_discord_verification :: "bool option"

text \<open>
  The values stored in \<^verbatim>\<open>data: Record<string, any>\<close>. The object keeps its keys in
  insertion order, so it is an association list.
\<close>

datatype payload_value =
  VUndefined | VString string | VBool bool | VNumber js_number | VFields "CustomField list"

type_synonym payload = "(string \<times> payload_value) list"

text \<open>
  What the HTTP client rejects with: \<^verbatim>\<open>error.response\<close> is absent on a network
  failure and carries the status otherwise; \<open>detail\<close> stands for the rest of the object.
\<close>

record transport_error =
  response_status :: "int option"
  detail :: string

text \<open>
  What a method throws: \<^verbatim>\<open>new Error(message)\<close>, the \<^verbatim>\<open>RangeError\<close> of
  \<^verbatim>\<open>Date.prototype.toISOString\<close> on an Invalid Date, or the caught transport error
  thrown again.
\<close>

datatype thrown = Error string | RangeError | Rethrown transport_error

text \<open>
  The runtime the method runs against: \<^verbatim>\<open>toISOString\<close> on a valid time value, and
  \<^verbatim>\<open>this._post(path, data)\<close>, which resolves with the response body or rejects.
\<close>

record 'r runtime =
  toISOString :: "int \<Rightarrow> string"
  post :: "string \<Rightarrow> payload \<Rightarrow> transport_error + 'r"

text \<open>
  What one call of \<^verbatim>\<open>createVerification\<close> does: the lines written by
  \<^verbatim>\<open>console.warn\<close>, the requests issued, and the value it resolves with (\<open>Inr\<close>) or
  rejects with (\<open>Inl\<close>).
\<close>

record 'r outcome =
  warnings :: "string list"
  requests :: "(string \<times> payload) list"
  result :: "thrown + 'r"

section \<open>\<^verbatim>\<open>createVerification\<close>\<close>

text \<open>A destructuring default \<^verbatim>\<open>{ p = d } = options\<close>.\<close>

definition default_to :: "'a \<Rightarrow> 'a option \<Rightarrow> 'a" where
  "default_to d x = (case x of None \<Rightarrow> d | Some v \<Rightarrow> v)"

text \<open>
  Lines 135-138: a \<^verbatim>\<open>Date\<close> becomes its ISO string, anything else is kept.
  \<^verbatim>\<open>toISOString\<close> throws a \<^verbatim>\<open>RangeError\<close> when the time value is not finite.
\<close>

definition formattedExpiration ::
  "'r runtime \<Rightarrow> expiration_value option \<Rightarrow> thrown + string option" where
  "formattedExpiration rt e =
     (case e of
        None \<Rightarrow> Inr None
      | Some (ExpString s) \<Rightarrow> Inr (Some s)
      | Some (ExpDate InvalidDate) \<Rightarrow> Inl RangeError
      | Some (ExpDate (TimeValue t)) \<Rightarrow> Inr (Some (toISOString rt t)))"

definition opt_string :: "string option \<Rightarrow> payload_value" where
  "opt_string x = (case x of None \<Rightarrow> VUndefined | Some s \<Rightarrow> VString s)"

definition opt_number :: "js_number option \<Rightarrow> payload_value" where
  "opt_number x = (case x of None \<Rightarrow> VUndefined | Some n \<Rightarrow> VNumber n)"

text \<open>Lines 140-161: the object literal \<^verbatim>\<open>data\<close>, all twenty keys in order.\<close>

definition build_data :: "VerificationOptions \<Rightarrow> string option \<Rightarrow> payload" where
  "build_data opts fe =
     [(''id'', VString (id_field opts)),
      (''service_name'', VString (service_name opts)),
      (''chain'', VString (chain_field opts)),
      (''internal_id'', opt_string (internal_id opts)),
      (''webhook'', opt_string (webhook opts)),
      (''expiration'', opt_string fe),
      (''secret'', opt_string (secret opts)),
      (''redirect_url'', opt_string (redirect_url opts)),
      (''one_time'', VBool (default_to False (one_time opts))),
      (''folder_id'', opt_string (folder_id opts)),
      (''custom_fields'', VFields (default_to [] (custom_fields opts))),
      (''token_gate'', VBool (default_to False (token_gate opts))),
      (''token_address'', opt_string (token_address opts)),
      (''token_amount'', opt_number (token_amount opts)),
      (''is_nft'', VBool (default_to False (is_nft opts))),
      (''force_email_verification'', VBool (default_to False (force_email_verification opts))),
      (''force_telegram_verification'',
         VBool (default_to False (force_telegram_verification opts))),
      (''force_twitter_verification'', VBool (default_to False (force_twitter_verification opts))),
      (''force_telephone_verification'',
         VBool (default_to False (force_telephone_verification opts))),
      (''force_discord_verification'',
         VBool (default_to False (force_discord_verification opts)))]"

text \<open>Lines 163-165.\<close>

definition check_presence :: "string option \<Rightarrow> string option \<Rightarrow> thrown option" where
  "check_presence folder webhk =
     (if \<not> truthy truthy_string folder \<and> \<not> truthy truthy_string webhk
      then Some (Error ''If no folder_id is provided, webhook is required'')
      else None)"

text \<open>Lines 168-170: the lines \<^verbatim>\<open>console.warn\<close> writes.\<close>

definition warn_secret :: "string option \<Rightarrow> string option \<Rightarrow> string list" where
  "warn_secret webhk secr =
     (if truthy truthy_string webhk \<and> \<not> truthy truthy_string secr
      then [''Warning: secret is highly recommended when using webhooks'']
      else [])"

text \<open>Lines 172-174.\<close>

definition check_webhook_scheme :: "string option \<Rightarrow> thrown option" where
  "check_webhook_scheme webhk =
     (if truthy truthy_string webhk \<and> \<not> startsWith (the webhk) ''https://''
      then Some (Error ''webhook must start with https://'')
      else None)"

text \<open>Lines 176-183.\<close>

definition check_token_gate ::
  "bool \<Rightarrow> string option \<Rightarrow> js_number option \<Rightarrow> thrown option" where
  "check_token_gate gate address amount =
     (if gate then
        (if \<not> truthy truthy_string address
         then Some (Error ''token_address is required when using token gate'')
         else if \<not> truthy truthy_number amount
         then Some (Error ''token_amount is required when using token gate'')
         else None)
      else None)"

text \<open>
  Lines 185-228 are five copies of one block, for \<^verbatim>\<open>email\<close>, \<^verbatim>\<open>telegram\<close>,
  \<^verbatim>\<open>twitter\<close>, \<^verbatim>\<open>telephone\<close> and \<^verbatim>\<open>discord\<close>; both throws of a block carry the same
  message. \<open>cfs\<close> is the defaulted array, which is always truthy.
\<close>

definition force_message :: "string \<Rightarrow> string" where
  "force_message channel =
     ''custom_fields['' @ channel @ ''] is required when using force_'' @ channel
       @ ''_verification''"

definition check_force :: "string \<Rightarrow> bool \<Rightarrow> CustomField list \<Rightarrow> thrown option" where
  "check_force channel flag cfs =
     (if flag then
        (if length cfs = 0 then Some (Error (force_message channel))
         else if \<not> list_ex (\<lambda>field. field_type field = channel) cfs
         then Some (Error (force_message channel))
         else None)
      else None)"

text \<open>
  Lines 163-228 in the order of the source: what is written to the console, and the
  error thrown, if any.
\<close>

definition run_checks :: "VerificationOptions \<Rightarrow> string list \<times> thrown option" where
  "run_checks opts =
     (let cfs = default_to [] (custom_fields opts) in
      case check_presence (folder_id opts) (webhook opts) of
        Some e \<Rightarrow> ([], Some e)
      | None \<Rightarrow>
     (let ws = warn_secret (webhook opts) (secret opts) in
      case check_webhook_scheme (webhook opts) of
        Some e \<Rightarrow> (ws, Some e)
      | None \<Rightarrow>
     (case check_token_gate (default_to False (token_gate opts)) (token_address opts)
             (token_amount opts) of
        Some e \<Rightarrow> (ws, Some e)
      | None \<Rightarrow>
     (case check_force ''email'' (default_to False (force_email_verification opts)) cfs of
        Some e \<Rightarrow> (ws, Some e)
      | None \<Rightarrow>
     (case check_force ''telegram'' (default_to False (force_telegram_verification opts)) cfs of
        Some e \<Rightarrow> (ws, Some e)
      | None \<Rightarrow>
     (case check_force ''twitter'' (default_to False (force_twitter_verification opts)) cfs of
        Some e \<Rightarrow> (ws, Some e)
      | None \<Rightarrow>
     (case check_force ''telephone'' (default_to False (force_telephone_verification opts))
             cfs of
        Some e \<Rightarrow> (ws, Some e)
      | None \<Rightarrow>
     (case check_force ''discord'' (default_to False (force_discord_verification opts)) cfs of
        Some e \<Rightarrow> (ws, Some e)
      | None \<Rightarrow> (ws, None)))))))))"

text \<open>Lines 230-235: every key whose value is \<^verbatim>\<open>undefined\<close> is deleted.\<close>

definition strip_undefined :: "payload \<Rightarrow> payload" where
  "strip_undefined data = filter (\<lambda>(key, v). v \<noteq> VUndefined) data"

text \<open>Lines 237-244: the \<^verbatim>\<open>try\<close>/\<^verbatim>\<open>catch\<close> around the request.\<close>

definition post_new :: "'r runtime \<Rightarrow> payload \<Rightarrow> thrown + 'r" where
  "post_new rt data =
     (case post rt ''/new'' data of
        Inr body \<Rightarrow> Inr body
      | Inl err \<Rightarrow>
          (if response_status err = Some 409
           then Inl (Error ''ID for the verification already exists. Choose another ID.'')
           else Inl (Rethrown err)))"

definition createVerification :: "'r runtime \<Rightarrow> VerificationOptions \<Rightarrow> 'r outcome" where
  "createVerification rt opts =
     (case formattedExpiration rt (expiration opts) of
        Inl e \<Rightarrow> \<lparr>warnings = [], requests = [], result = Inl e\<rparr>
      | Inr fe \<Rightarrow>
          (let data = build_data opts fe in
           case run_checks opts of
             (ws, Some e) \<Rightarrow> \<lparr>warnings = ws, requests = [], result = Inl e\<rparr>
           | (ws, None) \<Rightarrow>
               (let sent = strip_undefined data in
                \<lparr>warnings = ws, requests = [(''/new'', sent)], result = post_new rt sent\<rparr>)))"

section \<open>The constructor\<close>

text \<open>
  The fields of a \<^verbatim>\<open>Walver\<close> instance; \<open>client_timeout\<close> and \<open>client_headers\<close> are the
  configuration handed to \<^verbatim>\<open>axios.create\<close> (its \<^verbatim>\<open>baseURL\<close> is \<open>baseUrl\<close>).
\<close>

record Walver =
  apiKey :: string
  baseUrl :: string
  client_timeout :: js_number
  client_headers :: "(string \<times> string) list"

text \<open>Lines 47-56, once the key is known.\<close>

definition new_client :: "string \<Rightarrow> string \<Rightarrow> js_number \<Rightarrow> Walver" where
  "new_client key url tmo =
     \<lparr>apiKey = key,
      baseUrl = (if endsWith url ''/'' then butlast url else url),
      client_timeout = tmo,
      client_headers = [(''X-API-Key'', key)]\<rparr>"

text \<open>
  Lines 39-57. The last argument is \<^verbatim>\<open>process.env.WALVER_API_KEY\<close>, \<open>None\<close> when the
  variable is not set.
\<close>

definition Walver_constructor ::
  "string option \<Rightarrow> string option \<Rightarrow> js_number option \<Rightarrow> string option \<Rightarrow> thrown + Walver" where
  "Walver_constructor apiKey_arg baseUrl_arg timeout_arg env_WALVER_API_KEY =
     (let url = default_to ''https://walver.io/'' baseUrl_arg;
          tmo = default_to (Finite 10000) timeout_arg in
      if \<not> truthy truthy_string apiKey_arg then
        (if \<not> truthy truthy_string env_WALVER_API_KEY
         then Inl (Error
           ''API key is required. Either pass it as an argument or set the WALVER_API_KEY environment variable in .env file'')
         else Inr (new_client (the env_WALVER_API_KEY) url tmo))
      else Inr (new_client (the apiKey_arg) url tmo))"

section \<open>The vocabulary of the specification\<close>

text \<open>
  The specification calls every error of the structural checks a ValidationError; the
  source throws a plain \<^verbatim>\<open>Error\<close> with one of these nine messages.
\<close>

definition validation_messages :: "string list" where
  "validation_messages =
     [''If no folder_id is provided, webhook is required'',
      ''webhook must start with https://'',
      ''token_address is required when using token gate'',
      ''token_amount is required when using token gate'',
      ''custom_fields[email] is required when using force_email_verification'',
      ''custom_fields[telegram] is required when using force_telegram_verification'',
      ''custom_fields[twitter] is required when using force_twitter_verification'',
      ''custom_fields[telephone] is required when using force_telephone_verification'',
      ''custom_fields[discord] is required when using force_discord_verification'']"

definition is_ValidationError :: "thrown \<Rightarrow> bool" where
  "is_ValidationError t =
     (case t of Error m \<Rightarrow> m \<in> set validation_messages | RangeError \<Rightarrow> False
      | Rethrown err \<Rightarrow> False)"

definition raises_ValidationError :: "'r outcome \<Rightarrow> bool" where
  "raises_ValidationError out =
     (case result out of Inl t \<Rightarrow> is_ValidationError t | Inr body \<Rightarrow> False)"

text \<open>
  A list of rules run left to right, stopping at the first check that fails: a check
  either throws or passes, a warning writes its lines and goes on. The result is what was
  written before the stop, and the error thrown, if any.
\<close>

datatype check_step = Check "thrown option" | Warn "string list"

fun first_failure :: "check_step list \<Rightarrow> string list \<times> thrown option" where
  "first_failure [] = ([], None)"
| "first_failure (Warn ws # rest) = (case first_failure rest of (ws', r) \<Rightarrow> (ws @ ws', r))"
| "first_failure (Check None # rest) = first_failure rest"
| "first_failure (Check (Some e) # rest) = ([], Some e)"

definition channels :: "string list" where
  "channels = [''email'', ''telegram'', ''twitter'', ''telephone'', ''discord'']"

text \<open>The destructured \<^verbatim>\<open>force_<channel>_verification\<close> flag of a channel.\<close>

definition force_flag :: "VerificationOptions \<Rightarrow> string \<Rightarrow> bool" where
  "force_flag opts channel =
     default_to False
       (if channel = ''email'' then force_email_verification opts
        else if channel = ''telegram'' then force_telegram_verification opts
        else if channel = ''twitter'' then force_twitter_verification opts
        else if channel = ''telephone'' then force_telephone_verification opts
        else if channel = ''discord'' then force_discord_verification opts
        else None)"

definition force_checks :: "VerificationOptions \<Rightarrow> check_step list" where
  "force_checks opts =
     map (\<lambda>channel. Check (check_force channel (force_flag opts channel)
                             (default_to [] (custom_fields opts)))) channels"

definition token_gate_check :: "VerificationOptions \<Rightarrow> check_step" where
  "token_gate_check opts =
     Check (check_token_gate (default_to False (token_gate opts)) (token_address opts)
              (token_amount opts))"

text \<open>
  The order the specification lists (section 4.1, step 4): presence, webhook scheme, the
  warning, token gate, the five channels.
\<close>

definition spec_order :: "VerificationOptions \<Rightarrow> check_step list" where
  "spec_order opts =
     [Check (check_presence (folder_id opts) (webhook opts)),
      Check (check_webhook_scheme (webhook opts)),
      Warn (warn_secret (webhook opts) (secret opts)),
      token_gate_check opts] @ force_checks opts"

text \<open>
  The same steps with the warning before the scheme check, the token gate still one step.
\<close>

definition source_steps :: "VerificationOptions \<Rightarrow> check_step list" where
  "source_steps opts =
     [Check (check_presence (folder_id opts) (webhook opts)),
      Warn (warn_secret (webhook opts) (secret opts)),
      Check (check_webhook_scheme (webhook opts)),
      token_gate_check opts] @ force_checks opts"

text \<open>
  The two rules of the token gate, each with its own error: the address must be a
  non-empty string, the amount a number other than zero and \<^verbatim>\<open>NaN\<close>.
\<close>

definition token_address_rule :: "VerificationOptions \<Rightarrow> check_step" where
  "token_address_rule opts =
     Check (if default_to False (token_gate opts)
              \<and> \<not> truthy truthy_string (token_address opts)
            then Some (Error ''token_address is required when using token gate'')
            else None)"

definition token_amount_rule :: "VerificationOptions \<Rightarrow> check_step" where
  "token_amount_rule opts =
     Check (if default_to False (token_gate opts)
              \<and> \<not> truthy truthy_number (token_amount opts)
            then Some (Error ''token_amount is required when using token gate'')
            else None)"

text \<open>
  The rules one by one, each with its own error, in the order of the source: presence,
  the warning, webhook scheme, token address, token amount, the five channels.
\<close>

definition source_order :: "VerificationOptions \<Rightarrow> check_step list" where
  "source_order opts =
     [Check (check_presence (folder_id opts) (webhook opts)),
      Warn (warn_secret (webhook opts) (secret opts)),
      Check (check_webhook_scheme (webhook opts)),
      token_address_rule opts,
      token_amount_rule opts] @ force_checks opts"

text \<open>
  The keys of the optional properties the caller left unset, and the nine among the
  optional properties that the destructuring gives a default.
\<close>

definition unset_by_caller :: "VerificationOptions \<Rightarrow> string list" where
  "unset_by_caller opts =
     map fst (filter snd
       [(''internal_id'', internal_id opts = None),
        (''webhook'', webhook opts = None),
        (''expiration'', expiration opts = None),
        (''secret'', secret opts = None),
        (''redirect_url'', redirect_url opts = None),
        (''one_time'', one_time opts = None),
        (''folder_id'', folder_id opts = None),
        (''custom_fields'', custom_fields opts = None),
        (''token_gate'', token_gate opts = None),
        (''token_address'', token_address opts = None),
        (''token_amount'', token_amount opts = None),
        (''is_nft'', is_nft opts = None),
        (''force_email_verification'', force_email_verification opts = None),
        (''force_telegram_verification'', force_telegram_verification opts = None),
        (''force_twitter_verification'', force_twitter_verification opts = None),
        (''force_telephone_verification'', force_telephone_verification opts = None),
        (''force_discord_verification'', force_discord_verification opts = None)])"

definition defaulted_keys :: "string list" where
  "defaulted_keys =
     [''one_time'', ''custom_fields'', ''token_gate'', ''is_nft'',
      ''force_email_verification'', ''force_telegram_verification'',
      ''force_twitter_verification'', ''force_telephone_verification'',
      ''force_discord_verification'']"

definition keys_of :: "payload \<Rightarrow> string set" where
  "keys_of data = fst ` set data"

section \<open>Concrete calls\<close>

text \<open>
  \<^verbatim>\<open>{id: 'v1', service_name: 'Acme', chain: 'ETH'}\<close>, a runtime whose server accepts
  every request, and one whose server answers every request with an error.
\<close>

definition base_options :: VerificationOptions where
  "base_options =
     \<lparr>id_field = ''v1'', service_name = ''Acme'', chain_field = ''ETH'',
      internal_id = None, webhook = None, expiration = None, secret = None,
      redirect_url = None, one_time = None, folder_id = None, custom_fields = None,
      token_gate = None, token_address = None, token_amount = None, is_nft = None,
      force_email_verification = None, force_telegram_verification = None,
      force_twitter_verification = None, force_telephone_verification = None,
      force_discord_verification = None\<rparr>"

definition ok_runtime :: "string runtime" where
  "ok_runtime =
     \<lparr>toISOString = (\<lambda>t. if t = 0 then ''1970-01-01T00:00:00.000Z'' else ''later''),
      post = (\<lambda>path data. Inr ''created'')\<rparr>"

definition rejecting_runtime :: "int option \<Rightarrow> string runtime" where
  "rejecting_runtime status =
     \<lparr>toISOString = (\<lambda>t. if t = 0 then ''1970-01-01T00:00:00.000Z'' else ''later''),
      post = (\<lambda>path data. Inl \<lparr>response_status = status, detail = ''rejected''\<rparr>)\<rparr>"

text \<open>
  \<^verbatim>\<open>{id: 'v1', service_name: 'Acme', chain: 'ETH', folder_id: 'f1'}\<close>, the payload sent
  for it, and the same call with \<^verbatim>\<open>expiration: new Date(0)\<close>.
\<close>

definition folder_options :: VerificationOptions where
  "folder_options = base_options\<lparr>folder_id := Some ''f1''\<rparr>"

definition folder_payload :: payload where
  "folder_payload =
     [(''id'', VString ''v1''), (''service_name'', VString ''Acme''),
      (''chain'', VString ''ETH''), (''one_time'', VBool False),
      (''folder_id'', VString ''f1''), (''custom_fields'', VFields []),
      (''token_gate'', VBool False), (''is_nft'', VBool False),
      (''force_email_verification'', VBool False),
      (''force_telegram_verification'', VBool False),
      (''force_twitter_verification'', VBool False),
      (''force_telephone_verification'', VBool False),
      (''force_discord_verification'', VBool False)]"

definition dated_payload :: "string \<Rightarrow> payload" where
  "dated_payload iso_string =
     [(''id'', VString ''v1''), (''service_name'', VString ''Acme''),
      (''chain'', VString ''ETH''), (''expiration'', VString iso_string),
      (''one_time'', VBool False),
      (''folder_id'', VString ''f1''), (''custom_fields'', VFields []),
      (''token_gate'', VBool False), (''is_nft'', VBool False),
      (''force_email_verification'', VBool False),
      (''force_telegram_verification'', VBool False),
      (''force_twitter_verification'', VBool False),
      (''force_telephone_verification'', VBool False),
      (''force_discord_verification'', VBool False)]"

section \<open>Facts about the model\<close>

text \<open>The five messages, as the source spells them.\<close>

lemma force_message_simps:
  "force_message ''email'' = ''custom_fields[email] is required when using force_email_verification''"
  "force_message ''telegram'' = ''custom_fields[telegram] is required when using force_telegram_verification''"
  "force_message ''twitter'' = ''custom_fields[twitter] is required when using force_twitter_verification''"
  "force_message ''telephone'' = ''custom_fields[telephone] is required when using force_telephone_verification''"
  "force_message ''discord'' = ''custom_fields[discord] is required when using force_discord_verification''"
  by (simp_all add: force_message_def)

lemma run_checks_first_failure:
  "run_checks opts = first_failure (source_steps opts)"
  by (simp add: run_checks_def source_steps_def force_checks_def token_gate_check_def
      channels_def force_flag_def Let_def split: option.splits)

text \<open>
  The token gate of the source tests the address first and the amount second: its one
  step and the two rules in that order stop at the same error.
\<close>

lemma first_failure_Check:
  "first_failure (Check c # rest) =
     (case c of None \<Rightarrow> first_failure rest | Some e \<Rightarrow> ([], Some e))"
  by (cases c) simp_all

lemma first_failure_source_order:
  "first_failure (source_order opts) = first_failure (source_steps opts)"
  by (auto simp: source_order_def source_steps_def token_address_rule_def token_amount_rule_def
      token_gate_check_def check_token_gate_def first_failure_Check
      split: option.splits)

lemma formattedExpiration_ok:
  "expiration opts \<noteq> Some (ExpDate InvalidDate) \<Longrightarrow>
     \<exists>fe. formattedExpiration rt (expiration opts) = Inr fe"
  by (simp add: formattedExpiration_def split: option.splits expiration_value.splits js_date.splits)

lemma createVerification_checked:
  "formattedExpiration rt (expiration opts) = Inr fe \<Longrightarrow>
   createVerification rt opts =
     (case run_checks opts of
        (ws, Some e) \<Rightarrow> \<lparr>warnings = ws, requests = [], result = Inl e\<rparr>
      | (ws, None) \<Rightarrow>
          \<lparr>warnings = ws, requests = [(''/new'', strip_undefined (build_data opts fe))],
           result = post_new rt (strip_undefined (build_data opts fe))\<rparr>)"
  by (simp add: createVerification_def Let_def)

text \<open>
  What \<open>first_failure\<close> returns is the first failing check of the list, after the
  warnings that stand before it.
\<close>

lemma first_failure_is_first:
  "first_failure steps = (ws, Some e) \<Longrightarrow>
     \<exists>before after. steps = before @ Check (Some e) # after
        \<and> (\<forall>s \<in> set before. \<forall>e'. s \<noteq> Check (Some e'))
        \<and> ws = concat (map (\<lambda>s. case s of Warn w \<Rightarrow> w | Check c \<Rightarrow> []) before)"
proof (induction steps arbitrary: ws rule: first_failure.induct)
  case 1
  then show ?case by simp
next
  case (2 w rest)
  then obtain ws' where r: "first_failure rest = (ws', Some e)" and w: "ws = w @ ws'"
    by (auto split: prod.splits)
  from "2.IH"[OF r] obtain before after where
    "rest = before @ Check (Some e) # after"
    "\<forall>s \<in> set before. \<forall>e'. s \<noteq> Check (Some e')"
    "ws' = concat (map (\<lambda>s. case s of Warn w \<Rightarrow> w | Check c \<Rightarrow> []) before)"
    by blast
  then show ?case using w
    by (intro exI[of _ "Warn w # before"] exI[of _ after]) simp
next
  case (3 rest)
  then have r: "first_failure rest = (ws, Some e)" by simp
  from "3.IH"[OF r] obtain before after where
    "rest = before @ Check (Some e) # after"
    "\<forall>s \<in> set before. \<forall>e'. s \<noteq> Check (Some e')"
    "ws = concat (map (\<lambda>s. case s of Warn w \<Rightarrow> w | Check c \<Rightarrow> []) before)"
    by blast
  then show ?case
    by (intro exI[of _ "Check None # before"] exI[of _ after]) simp
next
  case (4 e0 rest)
  then show ?case
    by (intro exI[of _ "[]"] exI[of _ rest]) simp
qed

lemma first_failure_None:
  "first_failure steps = (ws, None) \<Longrightarrow> Check (Some e) \<notin> set steps"
  by (induction steps arbitrary: ws rule: first_failure.induct) (auto split: prod.splits)

lemma first_failure_Some:
  "first_failure steps = (ws, Some e) \<Longrightarrow> Check (Some e) \<in> set steps"
  by (induction steps arbitrary: ws rule: first_failure.induct) (auto split: prod.splits)

lemma set_source_steps:
  "Check r \<in> set (source_steps opts) \<longleftrightarrow>
     r = check_presence (folder_id opts) (webhook opts)
     \<or> r = check_webhook_scheme (webhook opts)
     \<or> r = check_token_gate (default_to False (token_gate opts)) (token_address opts)
            (token_amount opts)
     \<or> (\<exists>c \<in> set channels.
           r = check_force c (force_flag opts c) (default_to [] (custom_fields opts)))"
  by (auto simp: source_steps_def force_checks_def token_gate_check_def)

lemma check_presence_Some:
  "check_presence f w = Some e \<Longrightarrow> e = Error ''If no folder_id is provided, webhook is required''"
  by (simp add: check_presence_def split: if_splits)

lemma check_webhook_scheme_Some:
  "check_webhook_scheme w = Some e \<Longrightarrow> e = Error ''webhook must start with https://''"
  by (simp add: check_webhook_scheme_def split: if_splits)

lemma check_token_gate_Some:
  "check_token_gate g a n = Some e \<Longrightarrow>
     e = Error ''token_address is required when using token gate''
     \<or> e = Error ''token_amount is required when using token gate''"
  by (simp add: check_token_gate_def split: if_splits)

lemma check_force_Some:
  "check_force c flag cfs = Some e \<Longrightarrow> e = Error (force_message c)"
  by (simp add: check_force_def split: if_splits)

lemma force_message_validation:
  "c \<in> set channels \<Longrightarrow> force_message c \<in> set validation_messages"
  by (auto simp: channels_def force_message_def validation_messages_def)

lemma run_checks_Some_source:
  assumes "run_checks opts = (ws, Some e)"
  shows "check_presence (folder_id opts) (webhook opts) = Some e
     \<or> check_webhook_scheme (webhook opts) = Some e
     \<or> check_token_gate (default_to False (token_gate opts)) (token_address opts)
            (token_amount opts) = Some e
     \<or> (\<exists>c \<in> set channels.
           check_force c (force_flag opts c) (default_to [] (custom_fields opts)) = Some e)"
proof -
  have "Check (Some e) \<in> set (source_steps opts)"
    using assms first_failure_Some by (simp add: run_checks_first_failure)
  then show ?thesis
    by (simp only: set_source_steps) metis
qed

lemma run_checks_ValidationError:
  assumes "run_checks opts = (ws, Some e)"
  shows "is_ValidationError e"
  using run_checks_Some_source[OF assms]
  by (auto dest!: check_presence_Some check_webhook_scheme_Some check_token_gate_Some
      check_force_Some force_message_validation
      simp: is_ValidationError_def) (simp_all add: validation_messages_def)

lemma post_new_Inl:
  "post_new rt d = Inl e \<Longrightarrow>
     e = Error ''ID for the verification already exists. Choose another ID.''
     \<or> (\<exists>err. e = Rethrown err)"
  by (auto simp: post_new_def split: sum.splits if_splits)

lemma createVerification_failed_check:
  assumes "expiration opts \<noteq> Some (ExpDate InvalidDate)"
    and "run_checks opts = (ws, Some e)"
  shows "createVerification rt opts = \<lparr>warnings = ws, requests = [], result = Inl e\<rparr>"
proof -
  obtain fe where "formattedExpiration rt (expiration opts) = Inr fe"
    using assms(1) formattedExpiration_ok by blast
  then show ?thesis
    using assms(2) by (simp add: createVerification_checked)
qed

lemma createVerification_passed_checks:
  assumes "formattedExpiration rt (expiration opts) = Inr fe"
    and "run_checks opts = (ws, None)"
  shows "createVerification rt opts =
     \<lparr>warnings = ws, requests = [(''/new'', strip_undefined (build_data opts fe))],
      result = post_new rt (strip_undefined (build_data opts fe))\<rparr>"
  using assms by (simp add: createVerification_checked)

lemma createVerification_result_Error:
  assumes "expiration opts \<noteq> Some (ExpDate InvalidDate)"
    and "result (createVerification rt opts) = Inl (Error m)"
  shows "(\<exists>ws. run_checks opts = (ws, Some (Error m)))
     \<or> m = ''ID for the verification already exists. Choose another ID.''"
proof -
  obtain fe where fe: "formattedExpiration rt (expiration opts) = Inr fe"
    using assms(1) formattedExpiration_ok by blast
  obtain ws r where c: "run_checks opts = (ws, r)"
    by (cases "run_checks opts")
  show ?thesis
  proof (cases r)
    case None
    then have "post_new rt (strip_undefined (build_data opts fe)) = Inl (Error m)"
      using createVerification_passed_checks[OF fe] c assms(2) by simp
    then show ?thesis
      using post_new_Inl by blast
  next
    case (Some e)
    then have rc: "run_checks opts = (ws, Some e)"
      using c by simp
    from createVerification_failed_check[OF assms(1) this, of rt] have "e = Error m"
      using assms(2) by simp
    with rc show ?thesis by blast
  qed
qed

lemma failing_check_raises:
  assumes "expiration opts \<noteq> Some (ExpDate InvalidDate)"
    and "Check (Some e) \<in> set (source_steps opts)"
  shows "raises_ValidationError (createVerification rt opts)
     \<and> requests (createVerification rt opts) = []"
proof -
  obtain ws r where c: "run_checks opts = (ws, r)"
    by (cases "run_checks opts")
  have "r \<noteq> None"
    using first_failure_None[of "source_steps opts" ws e] c assms(2)
    by (auto simp: run_checks_first_failure)
  then obtain e' where r: "r = Some e'" by blast
  then have "is_ValidationError e'"
    using c run_checks_ValidationError by blast
  moreover have "run_checks opts = (ws, Some e')"
    using c r by simp
  ultimately show ?thesis
    using createVerification_failed_check[OF assms(1), of ws e' rt]
    by (simp add: raises_ValidationError_def)
qed

lemma force_message_inj:
  "c \<in> set channels \<Longrightarrow> c' \<in> set channels \<Longrightarrow> force_message c = force_message c' \<Longrightarrow> c = c'"
  by (auto simp: channels_def force_message_def)

lemma createVerification_sent:
  assumes "requests (createVerification rt opts) = [(path, sent)]"
  shows "\<exists>fe ws. formattedExpiration rt (expiration opts) = Inr fe
     \<and> run_checks opts = (ws, None)
     \<and> path = ''/new''
     \<and> sent = strip_undefined (build_data opts fe)
     \<and> result (createVerification rt opts) = post_new rt sent"
proof (cases "formattedExpiration rt (expiration opts)")
  case (Inl e)
  then show ?thesis
    using assms by (simp add: createVerification_def)
next
  case (Inr fe)
  obtain ws r where c: "run_checks opts = (ws, r)"
    by (cases "run_checks opts")
  show ?thesis
  proof (cases r)
    case None
    then show ?thesis
      using createVerification_passed_checks[OF Inr, of ws] c assms Inr by auto
  next
    case (Some e)
    then show ?thesis
      using createVerification_checked[OF Inr] c assms by simp
  qed
qed

lemma strip_undefined_Cons:
  "strip_undefined ((key, v) # data) =
     (if v = VUndefined then strip_undefined data else (key, v) # strip_undefined data)"
  by (simp add: strip_undefined_def)

lemma undefined_stripped: "VUndefined \<notin> snd ` set (strip_undefined data)"
  by (auto simp: strip_undefined_def)

lemma keys_of_stripped:
  "key \<in> keys_of (strip_undefined data) \<longleftrightarrow> (\<exists>v. (key, v) \<in> set data \<and> v \<noteq> VUndefined)"
  by (force simp: keys_of_def strip_undefined_def)

lemma map_of_stripped:
  "distinct (map fst data) \<Longrightarrow>
     map_of (strip_undefined data) key =
       (case map_of data key of None \<Rightarrow> None
        | Some v \<Rightarrow> if v = VUndefined then None else Some v)"
proof (induction data)
  case Nil
  then show ?case by (simp add: strip_undefined_def)
next
  case (Cons kv data)
  obtain k v where kv: "kv = (k, v)" by (cases kv)
  have d: "distinct (map fst data)" and k: "k \<notin> fst ` set data"
    using Cons.prems kv by simp_all
  have absent: "map_of (strip_undefined data) k = None"
    using k by (force simp: map_of_eq_None_iff strip_undefined_def)
  show ?case
    using Cons.IH[OF d] absent kv by (simp add: strip_undefined_Cons)
qed

lemma distinct_build_data: "distinct (map fst (build_data opts fe))"
  by (simp add: build_data_def)

lemma map_of_sent:
  "map_of (strip_undefined (build_data opts fe)) key =
     (case map_of (build_data opts fe) key of None \<Rightarrow> None
      | Some v \<Rightarrow> if v = VUndefined then None else Some v)"
  by (rule map_of_stripped[OF distinct_build_data])

lemma ball_unset_Cons:
  "(\<forall>key \<in> set (map fst (filter snd ((k, b) # rest))). Q key)
     \<longleftrightarrow> (b \<longrightarrow> Q k) \<and> (\<forall>key \<in> set (map fst (filter snd rest)). Q key)"
  by auto

lemma ball_unset_Nil: "(\<forall>key \<in> set (map fst (filter snd [])). Q key) \<longleftrightarrow> True"
  by simp

lemma absent_when_undefined:
  "map_of (build_data opts fe) key = Some VUndefined \<Longrightarrow>
     key \<notin> keys_of (strip_undefined (build_data opts fe))"
proof -
  assume u: "map_of (build_data opts fe) key = Some VUndefined"
  have "v = VUndefined" if "(key, v) \<in> set (build_data opts fe)" for v
    using that u distinct_build_data[of opts fe] by (metis map_of_is_SomeI option.inject)
  then show ?thesis
    by (auto simp: keys_of_stripped)
qed

lemma present_when_defined:
  "map_of (build_data opts fe) key = Some v \<Longrightarrow> v \<noteq> VUndefined \<Longrightarrow>
     key \<in> keys_of (strip_undefined (build_data opts fe))"
  by (auto simp: keys_of_stripped dest: map_of_SomeD)

text \<open>The definitions a concrete call is evaluated with.\<close>

lemmas eval_defs =
  createVerification_def formattedExpiration_def run_checks_def Let_def base_options_def
  ok_runtime_def rejecting_runtime_def check_presence_def warn_secret_def
  check_webhook_scheme_def check_token_gate_def check_force_def force_message_def
  truthy_def truthy_string_def truthy_number_def startsWith_def default_to_def
  build_data_def strip_undefined_def opt_string_def opt_number_def post_new_def
  folder_options_def folder_payload_def dated_payload_def

section \<open>The order of the checks\<close>

text \<open>
  Claim C1, as amended. Unless \<^verbatim>\<open>expiration\<close> is an Invalid Date (which throws before
  any check), \<^verbatim>\<open>createVerification\<close> runs its checks left to right and stops at the
  first one that fails, in this order: folder/webhook presence, the missing-secret
  warning, the webhook scheme, the token address, the token amount, and the five
  force-channel checks (email, telegram, twitter, telephone, discord). The warnings
  written and the error thrown are those of the first failing rule in that order, no
  request is issued when a rule fails, and exactly one request to \<^verbatim>\<open>/new\<close> is issued
  when none does.
\<close>

theorem createVerification_check_order:
  "expiration opts \<noteq> Some (ExpDate InvalidDate) \<Longrightarrow>
     warnings (createVerification rt opts) = fst (first_failure (source_order opts))
     \<and> (\<forall>e. snd (first_failure (source_order opts)) = Some e \<longrightarrow>
           result (createVerification rt opts) = Inl e
           \<and> requests (createVerification rt opts) = [])
     \<and> (snd (first_failure (source_order opts)) = None \<longrightarrow>
           (\<exists>sent. requests (createVerification rt opts) = [(''/new'', sent)]))"
proof -
  assume "expiration opts \<noteq> Some (ExpDate InvalidDate)"
  then obtain fe where fe: "formattedExpiration rt (expiration opts) = Inr fe"
    using formattedExpiration_ok by blast
  obtain ws r where c: "run_checks opts = (ws, r)"
    by (cases "run_checks opts")
  then have f: "first_failure (source_order opts) = (ws, r)"
    by (simp add: run_checks_first_failure first_failure_source_order)
  show ?thesis
    using createVerification_checked[OF fe] c f by (cases r) simp_all
qed

text \<open>
  A webhook with the \<^verbatim>\<open>http\<close> scheme and no secret: the warning is written, then the
  scheme check throws. With only a folder every rule passes and the request is sent.
  With a token gate and neither address nor amount, the address error is the one thrown.
\<close>

theorem createVerification_check_order_witness:
  "expiration (base_options\<lparr>webhook := Some ''http://example.com''\<rparr>)
     \<noteq> Some (ExpDate InvalidDate)
   \<and> warnings (createVerification ok_runtime (base_options\<lparr>webhook := Some ''http://example.com''\<rparr>))
       = [''Warning: secret is highly recommended when using webhooks'']
   \<and> result (createVerification ok_runtime (base_options\<lparr>webhook := Some ''http://example.com''\<rparr>))
       = Inl (Error ''webhook must start with https://'')
   \<and> requests (createVerification ok_runtime (base_options\<lparr>webhook := Some ''http://example.com''\<rparr>))
       = []
   \<and> first_failure (source_order folder_options) = ([], None)
   \<and> requests (createVerification ok_runtime folder_options) = [(''/new'', folder_payload)]
   \<and> token_address (folder_options\<lparr>token_gate := Some True\<rparr>) = None
   \<and> token_amount (folder_options\<lparr>token_gate := Some True\<rparr>) = None
   \<and> result (createVerification ok_runtime (folder_options\<lparr>token_gate := Some True\<rparr>))
       = Inl (Error ''token_address is required when using token gate'')"
  using createVerification_check_order
    [of "base_options\<lparr>webhook := Some ''http://example.com''\<rparr>" ok_runtime]
    createVerification_check_order [of folder_options ok_runtime]
    createVerification_check_order [of "folder_options\<lparr>token_gate := Some True\<rparr>" ok_runtime]
  by (simp add: eval_defs source_order_def force_checks_def token_address_rule_def
      token_amount_rule_def channels_def force_flag_def)

text \<open>
  In the order the specification lists, the scheme check comes before the warning, so
  the same call would throw without writing the warning; the source writes it.
\<close>

theorem spec_order_counterexample:
  "warnings (createVerification ok_runtime (base_options\<lparr>webhook := Some ''http://example.com''\<rparr>))
     = [''Warning: secret is highly recommended when using webhooks'']
   \<and> first_failure (spec_order (base_options\<lparr>webhook := Some ''http://example.com''\<rparr>))
     = ([], Some (Error ''webhook must start with https://''))"
  by (simp add: createVerification_def formattedExpiration_def run_checks_def Let_def
      base_options_def spec_order_def force_checks_def token_gate_check_def
      channels_def force_flag_def check_presence_def warn_secret_def check_webhook_scheme_def
      truthy_def truthy_string_def startsWith_def default_to_def)

section \<open>The structural checks\<close>

text \<open>
  Claim C2, as amended. Unless \<^verbatim>\<open>expiration\<close> is an Invalid Date: for every options
  object in which neither \<^verbatim>\<open>folder_id\<close> nor \<^verbatim>\<open>webhook\<close> is a non-empty string (each is
  unset or the empty string), \<^verbatim>\<open>createVerification\<close> raises the ValidationError
  \<^verbatim>\<open>If no folder_id is provided, webhook is required\<close> and issues no request; when at
  least one of the two is a non-empty string, the presence check passes and that error is
  not raised.
\<close>

theorem createVerification_presence:
  "expiration opts \<noteq> Some (ExpDate InvalidDate) \<Longrightarrow>
     (folder_id opts \<in> {None, Some ''''} \<and> webhook opts \<in> {None, Some ''''} \<longrightarrow>
        result (createVerification rt opts)
          = Inl (Error ''If no folder_id is provided, webhook is required'')
        \<and> is_ValidationError (Error ''If no folder_id is provided, webhook is required'')
        \<and> requests (createVerification rt opts) = [])
     \<and> (folder_id opts \<notin> {None, Some ''''} \<or> webhook opts \<notin> {None, Some ''''} \<longrightarrow>
        check_presence (folder_id opts) (webhook opts) = None
        \<and> result (createVerification rt opts)
          \<noteq> Inl (Error ''If no folder_id is provided, webhook is required''))"
proof -
  let ?m = "''If no folder_id is provided, webhook is required''"
  assume ok: "expiration opts \<noteq> Some (ExpDate InvalidDate)"
  have a: "result (createVerification rt opts) = Inl (Error ?m)
        \<and> requests (createVerification rt opts) = []"
    if "folder_id opts \<in> {None, Some ''''}" "webhook opts \<in> {None, Some ''''}"
  proof -
    have "check_presence (folder_id opts) (webhook opts) = Some (Error ?m)"
      using that by (auto simp: check_presence_def truthy_def truthy_string_def)
    then have "run_checks opts = ([], Some (Error ?m))"
      by (simp add: run_checks_def Let_def)
    from createVerification_failed_check[OF ok this, of rt] show ?thesis
      by simp
  qed
  have v: "is_ValidationError (Error ?m)"
    by (simp add: is_ValidationError_def validation_messages_def)
  have b: "check_presence (folder_id opts) (webhook opts) = None
        \<and> result (createVerification rt opts) \<noteq> Inl (Error ?m)"
    if "folder_id opts \<notin> {None, Some ''''} \<or> webhook opts \<notin> {None, Some ''''}"
  proof -
    have p: "check_presence (folder_id opts) (webhook opts) = None"
      using that by (auto simp: check_presence_def truthy_def truthy_string_def split: option.splits)
    have "result (createVerification rt opts) \<noteq> Inl (Error ?m)"
    proof
      assume "result (createVerification rt opts) = Inl (Error ?m)"
      then obtain ws where "run_checks opts = (ws, Some (Error ?m))"
        using createVerification_result_Error[OF ok] by fastforce
      from run_checks_Some_source[OF this] p show False
        by (auto dest!: check_webhook_scheme_Some check_token_gate_Some check_force_Some
            simp: channels_def force_message_def)
    qed
    with p show ?thesis by simp
  qed
  from a v b show ?thesis by blast
qed

text \<open>
  With nothing but the required fields the call is rejected; with
  \<^verbatim>\<open>folder_id: 'f1'\<close> the presence check passes.
\<close>

theorem createVerification_presence_witness:
  "expiration base_options \<noteq> Some (ExpDate InvalidDate)
   \<and> folder_id base_options \<in> {None, Some ''''} \<and> webhook base_options \<in> {None, Some ''''}
   \<and> result (createVerification ok_runtime base_options)
       = Inl (Error ''If no folder_id is provided, webhook is required'')
   \<and> requests (createVerification ok_runtime base_options) = []
   \<and> folder_id (base_options\<lparr>folder_id := Some ''f1''\<rparr>) \<notin> {None, Some ''''}
   \<and> check_presence (folder_id (base_options\<lparr>folder_id := Some ''f1''\<rparr>))
        (webhook (base_options\<lparr>folder_id := Some ''f1''\<rparr>)) = None
   \<and> result (createVerification ok_runtime (base_options\<lparr>folder_id := Some ''f1''\<rparr>))
       \<noteq> Inl (Error ''If no folder_id is provided, webhook is required'')"
  using createVerification_presence [of base_options ok_runtime]
    createVerification_presence [of "base_options\<lparr>folder_id := Some ''f1''\<rparr>" ok_runtime]
  by (simp add: base_options_def)

text \<open>
  \<^verbatim>\<open>folder_id: ''\<close> is supplied by the caller, and the call is rejected all the same:
  \<^verbatim>\<open>!folder_id\<close> is true of the empty string.
\<close>

theorem presence_empty_folder_id_counterexample:
  "folder_id (base_options\<lparr>folder_id := Some ''''\<rparr>) = Some ''''
   \<and> result (createVerification ok_runtime (base_options\<lparr>folder_id := Some ''''\<rparr>))
       = Inl (Error ''If no folder_id is provided, webhook is required'')
   \<and> requests (createVerification ok_runtime (base_options\<lparr>folder_id := Some ''''\<rparr>)) = []"
  by (simp add: eval_defs)

text \<open>
  Claim C3, as amended. Unless \<^verbatim>\<open>expiration\<close> is an Invalid Date: for every options
  object with a non-empty \<^verbatim>\<open>webhook\<close> that does not start with \<^verbatim>\<open>https://\<close>,
  \<^verbatim>\<open>createVerification\<close> raises the ValidationError
  \<^verbatim>\<open>webhook must start with https://\<close> and issues no request; a webhook starting with
  \<^verbatim>\<open>https://\<close> passes the scheme check, and so does an unset or empty webhook.
\<close>

theorem createVerification_webhook_scheme:
  "expiration opts \<noteq> Some (ExpDate InvalidDate) \<Longrightarrow>
     (\<forall>w. webhook opts = Some w \<and> w \<noteq> '''' \<and> \<not> startsWith w ''https://'' \<longrightarrow>
        result (createVerification rt opts) = Inl (Error ''webhook must start with https://'')
        \<and> is_ValidationError (Error ''webhook must start with https://'')
        \<and> requests (createVerification rt opts) = [])
     \<and> (\<forall>w. webhook opts = Some w \<and> startsWith w ''https://'' \<longrightarrow>
        check_webhook_scheme (webhook opts) = None
        \<and> result (createVerification rt opts) \<noteq> Inl (Error ''webhook must start with https://''))
     \<and> (webhook opts \<in> {None, Some ''''} \<longrightarrow> check_webhook_scheme (webhook opts) = None)"
proof -
  let ?m = "''webhook must start with https://''"
  assume ok: "expiration opts \<noteq> Some (ExpDate InvalidDate)"
  have a: "result (createVerification rt opts) = Inl (Error ?m)
        \<and> requests (createVerification rt opts) = []"
    if "webhook opts = Some w" "w \<noteq> ''''" "\<not> startsWith w ''https://''" for w
  proof -
    have "check_presence (folder_id opts) (webhook opts) = None"
      using that by (simp add: check_presence_def truthy_def truthy_string_def)
    moreover have "check_webhook_scheme (webhook opts) = Some (Error ?m)"
      using that by (simp add: check_webhook_scheme_def truthy_def truthy_string_def)
    ultimately have "run_checks opts = (warn_secret (webhook opts) (secret opts), Some (Error ?m))"
      by (simp add: run_checks_def Let_def)
    from createVerification_failed_check[OF ok this, of rt] show ?thesis
      by simp
  qed
  have v: "is_ValidationError (Error ?m)"
    by (simp add: is_ValidationError_def validation_messages_def)
  have p: "check_webhook_scheme (webhook opts) = None"
    if "webhook opts = Some w" "startsWith w ''https://''" for w
    using that by (simp add: check_webhook_scheme_def)
  have b: "result (createVerification rt opts) \<noteq> Inl (Error ?m)"
    if "webhook opts = Some w" "startsWith w ''https://''" for w
  proof
    assume "result (createVerification rt opts) = Inl (Error ?m)"
    then obtain ws where "run_checks opts = (ws, Some (Error ?m))"
      using createVerification_result_Error[OF ok] by fastforce
    from run_checks_Some_source[OF this] p[OF that] show False
      by (auto dest!: check_presence_Some check_token_gate_Some check_force_Some
          simp: channels_def force_message_def)
  qed
  have c: "check_webhook_scheme (webhook opts) = None" if "webhook opts \<in> {None, Some ''''}"
    using that by (auto simp: check_webhook_scheme_def truthy_def truthy_string_def)
  from a v p b c show ?thesis by blast
qed

text \<open>An \<^verbatim>\<open>http\<close> webhook is rejected, an \<^verbatim>\<open>https\<close> webhook passes the check.\<close>

theorem createVerification_webhook_scheme_witness:
  "expiration (base_options\<lparr>webhook := Some ''http://example.com''\<rparr>)
     \<noteq> Some (ExpDate InvalidDate)
   \<and> ''http://example.com'' \<noteq> '''' \<and> \<not> startsWith ''http://example.com'' ''https://''
   \<and> result (createVerification ok_runtime (base_options\<lparr>webhook := Some ''http://example.com''\<rparr>))
       = Inl (Error ''webhook must start with https://'')
   \<and> requests (createVerification ok_runtime (base_options\<lparr>webhook := Some ''http://example.com''\<rparr>))
       = []
   \<and> startsWith ''https://example.com'' ''https://''
   \<and> check_webhook_scheme (webhook (base_options\<lparr>webhook := Some ''https://example.com''\<rparr>))
       = None
   \<and> result (createVerification ok_runtime (base_options\<lparr>webhook := Some ''https://example.com''\<rparr>))
       \<noteq> Inl (Error ''webhook must start with https://'')"
  using createVerification_webhook_scheme
      [of "base_options\<lparr>webhook := Some ''http://example.com''\<rparr>" ok_runtime]
    createVerification_webhook_scheme
      [of "base_options\<lparr>webhook := Some ''https://example.com''\<rparr>" ok_runtime]
  by (simp add: base_options_def startsWith_def)

text \<open>
  \<^verbatim>\<open>webhook: ''\<close> does not start with \<^verbatim>\<open>https://\<close>; next to a folder the call is
  accepted and the request is sent, because \<^verbatim>\<open>webhook && ...\<close> skips the empty string.
\<close>

theorem webhook_empty_string_counterexample:
  "webhook (base_options\<lparr>folder_id := Some ''f1'', webhook := Some ''''\<rparr>) = Some ''''
   \<and> \<not> startsWith '''' ''https://''
   \<and> result (createVerification ok_runtime
        (base_options\<lparr>folder_id := Some ''f1'', webhook := Some ''''\<rparr>)) = Inr ''created''
   \<and> length (requests (createVerification ok_runtime
        (base_options\<lparr>folder_id := Some ''f1'', webhook := Some ''''\<rparr>))) = 1"
  by (simp add: eval_defs)

text \<open>
  Claim C4, as amended. Unless \<^verbatim>\<open>expiration\<close> is an Invalid Date: for every options
  object with \<^verbatim>\<open>token_gate\<close> true, \<^verbatim>\<open>createVerification\<close> raises a ValidationError and
  issues no request when \<^verbatim>\<open>token_address\<close> is missing or empty, or when
  \<^verbatim>\<open>token_amount\<close> is missing, zero or \<^verbatim>\<open>NaN\<close>; when \<^verbatim>\<open>token_address\<close> is non-empty and
  \<^verbatim>\<open>token_amount\<close> is a number other than zero and \<^verbatim>\<open>NaN\<close>, the token-gate check passes
  and neither of its two errors is raised.
\<close>

theorem createVerification_token_gate:
  "expiration opts \<noteq> Some (ExpDate InvalidDate) \<Longrightarrow> token_gate opts = Some True \<Longrightarrow>
     (token_address opts \<in> {None, Some ''''}
        \<or> token_amount opts \<in> {None, Some (Finite 0), Some NaN} \<longrightarrow>
        raises_ValidationError (createVerification rt opts)
        \<and> requests (createVerification rt opts) = [])
     \<and> (token_address opts \<notin> {None, Some ''''}
        \<and> token_amount opts \<notin> {None, Some (Finite 0), Some NaN} \<longrightarrow>
        check_token_gate True (token_address opts) (token_amount opts) = None
        \<and> result (createVerification rt opts)
            \<noteq> Inl (Error ''token_address is required when using token gate'')
        \<and> result (createVerification rt opts)
            \<noteq> Inl (Error ''token_amount is required when using token gate''))"
proof -
  assume ok: "expiration opts \<noteq> Some (ExpDate InvalidDate)"
    and gate: "token_gate opts = Some True"
  let ?r = "check_token_gate (default_to False (token_gate opts)) (token_address opts)
              (token_amount opts)"
  have g: "default_to False (token_gate opts) = True"
    using gate by (simp add: default_to_def)
  have a: "raises_ValidationError (createVerification rt opts)
        \<and> requests (createVerification rt opts) = []"
    if "token_address opts \<in> {None, Some ''''}
        \<or> token_amount opts \<in> {None, Some (Finite 0), Some NaN}"
  proof -
    have "?r \<noteq> None"
      using that g
      by (auto simp: check_token_gate_def truthy_def truthy_string_def truthy_number_def)
    then obtain e where "?r = Some e"
      by blast
    then have "Check (Some e) \<in> set (source_steps opts)"
      by (simp add: set_source_steps)
    from failing_check_raises[OF ok this] show ?thesis .
  qed
  have p: "?r = None"
    if "token_address opts \<notin> {None, Some ''''}"
      "token_amount opts \<notin> {None, Some (Finite 0), Some NaN}"
    using that
    by (auto simp: check_token_gate_def truthy_def truthy_string_def truthy_number_def
        split: option.splits js_number.splits)
  have b: "result (createVerification rt opts) \<noteq> Inl (Error m)"
    if t1: "token_address opts \<notin> {None, Some ''''}"
      and t2: "token_amount opts \<notin> {None, Some (Finite 0), Some NaN}"
      and t3: "m = ''token_address is required when using token gate''
       \<or> m = ''token_amount is required when using token gate''" for m
  proof
    assume "result (createVerification rt opts) = Inl (Error m)"
    then obtain ws where "run_checks opts = (ws, Some (Error m))"
      using createVerification_result_Error[OF ok] t3 by fastforce
    from run_checks_Some_source[OF this] p[OF t1 t2] t3 show False
      by (auto dest!: check_presence_Some check_webhook_scheme_Some check_force_Some
          simp: channels_def force_message_def)
  qed
  from a p b g show ?thesis by simp
qed

text \<open>
  A token gate without an address is rejected; with address \<^verbatim>\<open>0xabc\<close> and amount 5
  the check passes.
\<close>

theorem createVerification_token_gate_witness:
  "expiration (base_options\<lparr>folder_id := Some ''f1'', token_gate := Some True\<rparr>)
     \<noteq> Some (ExpDate InvalidDate)
   \<and> token_gate (base_options\<lparr>folder_id := Some ''f1'', token_gate := Some True\<rparr>) = Some True
   \<and> token_address (base_options\<lparr>folder_id := Some ''f1'', token_gate := Some True\<rparr>)
       \<in> {None, Some ''''}
   \<and> raises_ValidationError (createVerification ok_runtime
        (base_options\<lparr>folder_id := Some ''f1'', token_gate := Some True\<rparr>))
   \<and> requests (createVerification ok_runtime
        (base_options\<lparr>folder_id := Some ''f1'', token_gate := Some True\<rparr>)) = []
   \<and> check_token_gate True (Some ''0xabc'') (Some (Finite 5)) = None
   \<and> result (createVerification ok_runtime
        (base_options\<lparr>folder_id := Some ''f1'', token_gate := Some True,
           token_address := Some ''0xabc'', token_amount := Some (Finite 5)\<rparr>))
       \<noteq> Inl (Error ''token_amount is required when using token gate'')"
  using createVerification_token_gate
      [of "base_options\<lparr>folder_id := Some ''f1'', token_gate := Some True\<rparr>" ok_runtime]
    createVerification_token_gate
      [of "base_options\<lparr>folder_id := Some ''f1'', token_gate := Some True,
             token_address := Some ''0xabc'', token_amount := Some (Finite 5)\<rparr>" ok_runtime]
  by (simp add: base_options_def)

text \<open>
  \<^verbatim>\<open>token_amount: NaN\<close> is present and is not zero, and the call is rejected all the
  same: \<^verbatim>\<open>!token_amount\<close> is true of \<^verbatim>\<open>NaN\<close>.
\<close>

theorem token_amount_NaN_counterexample:
  "token_amount (base_options\<lparr>folder_id := Some ''f1'', token_gate := Some True,
       token_address := Some ''0xabc'', token_amount := Some NaN\<rparr>) \<noteq> Some (Finite 0)
   \<and> result (createVerification ok_runtime
        (base_options\<lparr>folder_id := Some ''f1'', token_gate := Some True,
           token_address := Some ''0xabc'', token_amount := Some NaN\<rparr>))
       = Inl (Error ''token_amount is required when using token gate'')"
  by (simp add: eval_defs)

text \<open>
  Claim C5, as amended. Unless \<^verbatim>\<open>expiration\<close> is an Invalid Date: for each of the five
  channels (email, telegram, twitter, telephone, discord) and every options object with
  that channel's \<^verbatim>\<open>force_<channel>_verification\<close> flag true, \<^verbatim>\<open>createVerification\<close>
  raises a ValidationError and issues no request when \<^verbatim>\<open>custom_fields\<close> is empty or has
  no element whose \<^verbatim>\<open>type\<close> is the channel's name; when it has such an element, that
  channel's check passes, whatever the other flags are, and that channel's error is not
  raised.
\<close>

theorem createVerification_force_channel:
  "expiration opts \<noteq> Some (ExpDate InvalidDate) \<Longrightarrow> channel \<in> set channels \<Longrightarrow>
   force_flag opts channel \<Longrightarrow>
     (default_to [] (custom_fields opts) = []
        \<or> \<not> list_ex (\<lambda>field. field_type field = channel) (default_to [] (custom_fields opts))
      \<longrightarrow> raises_ValidationError (createVerification rt opts)
        \<and> requests (createVerification rt opts) = [])
     \<and> (list_ex (\<lambda>field. field_type field = channel) (default_to [] (custom_fields opts))
      \<longrightarrow> check_force channel (force_flag opts channel) (default_to [] (custom_fields opts))
            = None
        \<and> result (createVerification rt opts) \<noteq> Inl (Error (force_message channel)))"
proof -
  assume ok: "expiration opts \<noteq> Some (ExpDate InvalidDate)"
    and ch: "channel \<in> set channels" and flag: "force_flag opts channel"
  let ?cfs = "default_to [] (custom_fields opts)"
  have a: "raises_ValidationError (createVerification rt opts)
        \<and> requests (createVerification rt opts) = []"
    if "?cfs = [] \<or> \<not> list_ex (\<lambda>field. field_type field = channel) ?cfs"
  proof -
    have "check_force channel (force_flag opts channel) ?cfs
            = Some (Error (force_message channel))"
      using that flag by (auto simp: check_force_def)
    then have "Check (Some (Error (force_message channel))) \<in> set (source_steps opts)"
      using ch by (simp only: set_source_steps) metis
    from failing_check_raises[OF ok this] show ?thesis .
  qed
  have p: "check_force channel (force_flag opts channel) ?cfs = None"
    if "list_ex (\<lambda>field. field_type field = channel) ?cfs"
    using that by (auto simp: check_force_def)
  have b: "result (createVerification rt opts) \<noteq> Inl (Error (force_message channel))"
    if ex: "list_ex (\<lambda>field. field_type field = channel) ?cfs"
  proof
    assume "result (createVerification rt opts) = Inl (Error (force_message channel))"
    moreover have "force_message channel
        \<noteq> ''ID for the verification already exists. Choose another ID.''"
      using ch by (auto simp: channels_def force_message_def)
    ultimately obtain ws where "run_checks opts = (ws, Some (Error (force_message channel)))"
      using createVerification_result_Error[OF ok] by blast
    from run_checks_Some_source[OF this] consider
      (early) "check_presence (folder_id opts) (webhook opts)
                 = Some (Error (force_message channel))
         \<or> check_webhook_scheme (webhook opts) = Some (Error (force_message channel))
         \<or> check_token_gate (default_to False (token_gate opts)) (token_address opts)
              (token_amount opts) = Some (Error (force_message channel))"
      | (force) c where "c \<in> set channels"
          "check_force c (force_flag opts c) ?cfs = Some (Error (force_message channel))"
      by blast
    then show False
    proof cases
      case early
      then show False
        using ch
        by (auto dest!: check_presence_Some check_webhook_scheme_Some check_token_gate_Some
            simp: channels_def force_message_def)
    next
      case force
      then have "force_message c = force_message channel"
        using check_force_Some by fastforce
      then have "c = channel"
        using force(1) ch force_message_inj by blast
      then show False
        using force(2) p[OF ex] by simp
    qed
  qed
  from a p b show ?thesis by blast
qed

text \<open>
  \<^verbatim>\<open>force_email_verification\<close> without custom fields is rejected; with an
  \<^verbatim>\<open>email\<close> field the email check passes.
\<close>

theorem createVerification_force_channel_witness:
  "expiration (base_options\<lparr>folder_id := Some ''f1'', force_email_verification := Some True\<rparr>)
     \<noteq> Some (ExpDate InvalidDate)
   \<and> ''email'' \<in> set channels
   \<and> force_flag (base_options\<lparr>folder_id := Some ''f1'', force_email_verification := Some True\<rparr>)
       ''email''
   \<and> raises_ValidationError (createVerification ok_runtime
        (base_options\<lparr>folder_id := Some ''f1'', force_email_verification := Some True\<rparr>))
   \<and> requests (createVerification ok_runtime
        (base_options\<lparr>folder_id := Some ''f1'', force_email_verification := Some True\<rparr>)) = []
   \<and> list_ex (\<lambda>field. field_type field = ''email'')
        [\<lparr>field_type = ''email'', attributes = [(''required'', JBool True)]\<rparr>]
   \<and> result (createVerification ok_runtime
        (base_options\<lparr>folder_id := Some ''f1'', force_email_verification := Some True,
           custom_fields :=
             Some [\<lparr>field_type = ''email'', attributes = [(''required'', JBool True)]\<rparr>]\<rparr>))
       \<noteq> Inl (Error (force_message ''email''))"
  using createVerification_force_channel
      [of "base_options\<lparr>folder_id := Some ''f1'', force_email_verification := Some True\<rparr>"
        "''email''" ok_runtime]
    createVerification_force_channel
      [of "base_options\<lparr>folder_id := Some ''f1'', force_email_verification := Some True,
             custom_fields :=
               Some [\<lparr>field_type = ''email'', attributes = [(''required'', JBool True)]\<rparr>]\<rparr>"
        "''email''" ok_runtime]
  by (simp add: base_options_def channels_def force_flag_def default_to_def)

text \<open>
  With an Invalid Date as \<^verbatim>\<open>expiration\<close> the call throws the \<^verbatim>\<open>RangeError\<close> of
  \<^verbatim>\<open>toISOString\<close> at line 137, before any check runs: the flag is set and there is no
  custom field, yet what is raised is not one of the validation errors.
\<close>

theorem force_channel_invalid_date_counterexample:
  "force_flag (base_options\<lparr>folder_id := Some ''f1'', force_email_verification := Some True,
       expiration := Some (ExpDate InvalidDate)\<rparr>) ''email''
   \<and> default_to [] (custom_fields (base_options\<lparr>folder_id := Some ''f1'',
       force_email_verification := Some True, expiration := Some (ExpDate InvalidDate)\<rparr>)) = []
   \<and> result (createVerification ok_runtime
        (base_options\<lparr>folder_id := Some ''f1'', force_email_verification := Some True,
           expiration := Some (ExpDate InvalidDate)\<rparr>)) = Inl RangeError
   \<and> \<not> raises_ValidationError (createVerification ok_runtime
        (base_options\<lparr>folder_id := Some ''f1'', force_email_verification := Some True,
           expiration := Some (ExpDate InvalidDate)\<rparr>))"
  by (simp add: eval_defs force_flag_def raises_ValidationError_def is_ValidationError_def)

section \<open>The request and its failures\<close>

text \<open>
  Claim C6. When \<^verbatim>\<open>createVerification\<close> issues its request, it is a POST to \<^verbatim>\<open>/new\<close>.
  If that request fails with status 409, the call raises an error with the exact message
  \<^verbatim>\<open>ID for the verification already exists. Choose another ID.\<close>; if it fails in any
  other way (another status, or no response at all), the error caught is thrown again
  unchanged; if it succeeds, the response body is returned as it is.
\<close>

theorem createVerification_conflict:
  "requests (createVerification rt opts) = [(path, sent)] \<Longrightarrow>
     path = ''/new''
     \<and> (\<forall>err. post rt ''/new'' sent = Inl err \<and> response_status err = Some 409 \<longrightarrow>
           result (createVerification rt opts)
             = Inl (Error ''ID for the verification already exists. Choose another ID.''))
     \<and> (\<forall>err. post rt ''/new'' sent = Inl err \<and> response_status err \<noteq> Some 409 \<longrightarrow>
           result (createVerification rt opts) = Inl (Rethrown err))
     \<and> (\<forall>body. post rt ''/new'' sent = Inr body \<longrightarrow>
           result (createVerification rt opts) = Inr body)"
proof -
  assume "requests (createVerification rt opts) = [(path, sent)]"
  then have "path = ''/new''" and "result (createVerification rt opts) = post_new rt sent"
    using createVerification_sent by blast+
  then show ?thesis
    by (simp add: post_new_def)
qed

text \<open>
  A server answering 409 gives the fixed message; one answering 500, and a network
  failure without a response, give back the transport error itself.
\<close>

theorem createVerification_conflict_witness:
  "requests (createVerification (rejecting_runtime (Some 409)) folder_options)
     = [(''/new'', folder_payload)]
   \<and> post (rejecting_runtime (Some 409)) ''/new'' folder_payload
     = Inl \<lparr>response_status = Some 409, detail = ''rejected''\<rparr>
   \<and> result (createVerification (rejecting_runtime (Some 409)) folder_options)
     = Inl (Error ''ID for the verification already exists. Choose another ID.'')
   \<and> result (createVerification (rejecting_runtime (Some 500)) folder_options)
     = Inl (Rethrown \<lparr>response_status = Some 500, detail = ''rejected''\<rparr>)
   \<and> result (createVerification (rejecting_runtime None) folder_options)
     = Inl (Rethrown \<lparr>response_status = None, detail = ''rejected''\<rparr>)
   \<and> result (createVerification ok_runtime folder_options) = Inr ''created''"
  using createVerification_conflict
      [of "rejecting_runtime (Some 409)" folder_options "''/new''" folder_payload]
    createVerification_conflict
      [of "rejecting_runtime (Some 500)" folder_options "''/new''" folder_payload]
    createVerification_conflict
      [of "rejecting_runtime None" folder_options "''/new''" folder_payload]
    createVerification_conflict
      [of ok_runtime folder_options "''/new''" folder_payload]
  by (simp add: eval_defs)

section \<open>The transmitted payload\<close>

text \<open>
  Claim C7, as amended. In the payload \<^verbatim>\<open>createVerification\<close> transmits, every field
  without a destructuring default (\<^verbatim>\<open>internal_id\<close>, \<^verbatim>\<open>webhook\<close>, \<^verbatim>\<open>expiration\<close>,
  \<^verbatim>\<open>secret\<close>, \<^verbatim>\<open>redirect_url\<close>, \<^verbatim>\<open>folder_id\<close>, \<^verbatim>\<open>token_address\<close>, \<^verbatim>\<open>token_amount\<close>)
  that the caller left unset is entirely absent, and no key carries the value
  \<^verbatim>\<open>undefined\<close>; the nine fields with a default (\<^verbatim>\<open>one_time\<close>, \<^verbatim>\<open>custom_fields\<close>,
  \<^verbatim>\<open>token_gate\<close>, \<^verbatim>\<open>is_nft\<close> and the five force flags) are present even when the caller
  left them unset.
\<close>

theorem createVerification_unset_fields:
  "requests (createVerification rt opts) = [(path, sent)] \<Longrightarrow>
     (\<forall>key \<in> set (unset_by_caller opts).
         (key \<notin> set defaulted_keys \<longrightarrow> key \<notin> keys_of sent)
         \<and> (key \<in> set defaulted_keys \<longrightarrow> key \<in> keys_of sent))
     \<and> VUndefined \<notin> snd ` set sent"
proof -
  assume r: "requests (createVerification rt opts) = [(path, sent)]"
  then obtain fe where fe: "formattedExpiration rt (expiration opts) = Inr fe"
    and sent: "sent = strip_undefined (build_data opts fe)"
    using createVerification_sent by blast
  have e: "fe = None" if "expiration opts = None"
    using fe that by (simp add: formattedExpiration_def)
  have absent: "key \<notin> keys_of sent"
    if "map_of (build_data opts fe) key = Some VUndefined" for key
    using that absent_when_undefined sent by simp
  have present: "key \<in> keys_of sent"
    if "map_of (build_data opts fe) key = Some v" "v \<noteq> VUndefined" for key v
    using that present_when_defined sent by simp
  have a1: "''internal_id'' \<notin> keys_of sent" if "internal_id opts = None"
    by (rule absent) (simp add: build_data_def opt_string_def that)
  have a2: "''webhook'' \<notin> keys_of sent" if "webhook opts = None"
    by (rule absent) (simp add: build_data_def opt_string_def that)
  have a3: "''expiration'' \<notin> keys_of sent" if "expiration opts = None"
    by (rule absent) (simp add: build_data_def opt_string_def e[OF that])
  have a4: "''secret'' \<notin> keys_of sent" if "secret opts = None"
    by (rule absent) (simp add: build_data_def opt_string_def that)
  have a5: "''redirect_url'' \<notin> keys_of sent" if "redirect_url opts = None"
    by (rule absent) (simp add: build_data_def opt_string_def that)
  have a6: "''folder_id'' \<notin> keys_of sent" if "folder_id opts = None"
    by (rule absent) (simp add: build_data_def opt_string_def that)
  have a7: "''token_address'' \<notin> keys_of sent" if "token_address opts = None"
    by (rule absent) (simp add: build_data_def opt_string_def that)
  have a8: "''token_amount'' \<notin> keys_of sent" if "token_amount opts = None"
    by (rule absent) (simp add: build_data_def opt_number_def that)
  have p1: "''one_time'' \<in> keys_of sent"
    by (rule present[of _ "VBool (default_to False (one_time opts))"])
      (simp_all add: build_data_def)
  have p2: "''custom_fields'' \<in> keys_of sent"
    by (rule present[of _ "VFields (default_to [] (custom_fields opts))"])
      (simp_all add: build_data_def)
  have p3: "''token_gate'' \<in> keys_of sent"
    by (rule present[of _ "VBool (default_to False (token_gate opts))"])
      (simp_all add: build_data_def)
  have p4: "''is_nft'' \<in> keys_of sent"
    by (rule present[of _ "VBool (default_to False (is_nft opts))"])
      (simp_all add: build_data_def)
  have p5: "''force_email_verification'' \<in> keys_of sent"
    by (rule present[of _ "VBool (default_to False (force_email_verification opts))"])
      (simp_all add: build_data_def)
  have p6: "''force_telegram_verification'' \<in> keys_of sent"
    by (rule present[of _ "VBool (default_to False (force_telegram_verification opts))"])
      (simp_all add: build_data_def)
  have p7: "''force_twitter_verification'' \<in> keys_of sent"
    by (rule present[of _ "VBool (default_to False (force_twitter_verification opts))"])
      (simp_all add: build_data_def)
  have p8: "''force_telephone_verification'' \<in> keys_of sent"
    by (rule present[of _ "VBool (default_to False (force_telephone_verification opts))"])
      (simp_all add: build_data_def)
  have p9: "''force_discord_verification'' \<in> keys_of sent"
    by (rule present[of _ "VBool (default_to False (force_discord_verification opts))"])
      (simp_all add: build_data_def)
  have d: "''one_time'' \<in> set defaulted_keys" "''custom_fields'' \<in> set defaulted_keys"
    "''token_gate'' \<in> set defaulted_keys" "''is_nft'' \<in> set defaulted_keys"
    "''force_email_verification'' \<in> set defaulted_keys"
    "''force_telegram_verification'' \<in> set defaulted_keys"
    "''force_twitter_verification'' \<in> set defaulted_keys"
    "''force_telephone_verification'' \<in> set defaulted_keys"
    "''force_discord_verification'' \<in> set defaulted_keys"
    by (simp_all add: defaulted_keys_def)
  have n: "''internal_id'' \<notin> set defaulted_keys" "''webhook'' \<notin> set defaulted_keys"
    "''expiration'' \<notin> set defaulted_keys" "''secret'' \<notin> set defaulted_keys"
    "''redirect_url'' \<notin> set defaulted_keys" "''folder_id'' \<notin> set defaulted_keys"
    "''token_address'' \<notin> set defaulted_keys" "''token_amount'' \<notin> set defaulted_keys"
    by (simp_all add: defaulted_keys_def)
  have "\<forall>key \<in> set (unset_by_caller opts).
         (key \<notin> set defaulted_keys \<longrightarrow> key \<notin> keys_of sent)
         \<and> (key \<in> set defaulted_keys \<longrightarrow> key \<in> keys_of sent)"
    unfolding unset_by_caller_def ball_unset_Cons ball_unset_Nil
    using a1 a2 a3 a4 a5 a6 a7 a8 p1 p2 p3 p4 p5 p6 p7 p8 p9 d n
    by (intro conjI impI) (simp_all only: not_True_eq_False simp_thms)
  moreover have "VUndefined \<notin> snd ` set sent"
    unfolding sent by (rule undefined_stripped)
  ultimately show ?thesis by blast
qed

text \<open>
  For \<^verbatim>\<open>{id, service_name, chain, folder_id}\<close>: \<^verbatim>\<open>webhook\<close> and \<^verbatim>\<open>token_amount\<close> are
  unset and absent, \<^verbatim>\<open>is_nft\<close> is unset and present.
\<close>

theorem createVerification_unset_fields_witness:
  "requests (createVerification ok_runtime folder_options) = [(''/new'', folder_payload)]
   \<and> ''webhook'' \<in> set (unset_by_caller folder_options)
   \<and> ''webhook'' \<notin> set defaulted_keys
   \<and> ''webhook'' \<notin> keys_of folder_payload
   \<and> ''token_amount'' \<in> set (unset_by_caller folder_options)
   \<and> ''token_amount'' \<notin> keys_of folder_payload
   \<and> ''is_nft'' \<in> set (unset_by_caller folder_options)
   \<and> ''is_nft'' \<in> set defaulted_keys
   \<and> ''is_nft'' \<in> keys_of folder_payload
   \<and> VUndefined \<notin> snd ` set folder_payload"
  using createVerification_unset_fields
      [of ok_runtime folder_options "''/new''" folder_payload]
  by (simp add: eval_defs unset_by_caller_def defaulted_keys_def keys_of_def)

text \<open>
  The caller left \<^verbatim>\<open>one_time\<close> unset, and the transmitted payload has the key
  \<^verbatim>\<open>one_time\<close>, with the value \<^verbatim>\<open>false\<close>.
\<close>

theorem unset_one_time_counterexample:
  "one_time folder_options = None
   \<and> ''one_time'' \<in> set (unset_by_caller folder_options)
   \<and> requests (createVerification ok_runtime folder_options) = [(''/new'', folder_payload)]
   \<and> ''one_time'' \<in> keys_of folder_payload
   \<and> map_of folder_payload ''one_time'' = Some (VBool False)"
  by (simp add: eval_defs unset_by_caller_def keys_of_def)

text \<open>
  Claim C8. In the payload \<^verbatim>\<open>createVerification\<close> transmits, an \<^verbatim>\<open>expiration\<close> given as a
  \<^verbatim>\<open>Date\<close> appears as the string \<^verbatim>\<open>toISOString\<close> gives for it, an \<^verbatim>\<open>expiration\<close> given
  as a string appears unchanged, and an absent \<^verbatim>\<open>expiration\<close> stays absent. (An Invalid
  Date has no ISO string: the call throws and transmits nothing.)
\<close>

theorem createVerification_expiration:
  "requests (createVerification rt opts) = [(path, sent)] \<Longrightarrow>
     expiration opts \<noteq> Some (ExpDate InvalidDate)
     \<and> (\<forall>t. expiration opts = Some (ExpDate (TimeValue t)) \<longrightarrow>
           map_of sent ''expiration'' = Some (VString (toISOString rt t)))
     \<and> (\<forall>s. expiration opts = Some (ExpString s) \<longrightarrow>
           map_of sent ''expiration'' = Some (VString s))
     \<and> (expiration opts = None \<longrightarrow> ''expiration'' \<notin> keys_of sent)"
proof -
  assume "requests (createVerification rt opts) = [(path, sent)]"
  then obtain fe where fe: "formattedExpiration rt (expiration opts) = Inr fe"
    and sent: "sent = strip_undefined (build_data opts fe)"
    using createVerification_sent by blast
  have e: "map_of sent ''expiration'' = (case fe of None \<Rightarrow> None | Some s \<Rightarrow> Some (VString s))"
    by (simp add: sent map_of_sent) (simp add: build_data_def opt_string_def split: option.splits)
  have k: "''expiration'' \<notin> keys_of sent" if "fe = None"
    using that by (simp add: sent keys_of_stripped) (simp add: build_data_def opt_string_def)
  show ?thesis
    using fe e k
    by (auto simp: formattedExpiration_def split: option.splits expiration_value.splits
        js_date.splits)
qed

text \<open>\<^verbatim>\<open>new Date(0)\<close>, an ISO string, and no expiration at all.\<close>

theorem createVerification_expiration_witness:
  "requests (createVerification ok_runtime
       (folder_options\<lparr>expiration := Some (ExpDate (TimeValue 0))\<rparr>))
     = [(''/new'', dated_payload ''1970-01-01T00:00:00.000Z'')]
   \<and> toISOString ok_runtime 0 = ''1970-01-01T00:00:00.000Z''
   \<and> map_of (dated_payload ''1970-01-01T00:00:00.000Z'') ''expiration''
     = Some (VString ''1970-01-01T00:00:00.000Z'')
   \<and> requests (createVerification ok_runtime
       (folder_options\<lparr>expiration := Some (ExpString ''2030-01-01T00:00:00Z'')\<rparr>))
     = [(''/new'', dated_payload ''2030-01-01T00:00:00Z'')]
   \<and> map_of (dated_payload ''2030-01-01T00:00:00Z'') ''expiration''
     = Some (VString ''2030-01-01T00:00:00Z'')
   \<and> requests (createVerification ok_runtime folder_options) = [(''/new'', folder_payload)]
   \<and> expiration folder_options = None
   \<and> ''expiration'' \<notin> keys_of folder_payload"
  using createVerification_expiration
      [of ok_runtime "folder_options\<lparr>expiration := Some (ExpDate (TimeValue 0))\<rparr>"
        "''/new''" "dated_payload ''1970-01-01T00:00:00.000Z''"]
    createVerification_expiration
      [of ok_runtime "folder_options\<lparr>expiration := Some (ExpString ''2030-01-01T00:00:00Z'')\<rparr>"
        "''/new''" "dated_payload ''2030-01-01T00:00:00Z''"]
    createVerification_expiration
      [of ok_runtime folder_options "''/new''" folder_payload]
  by (simp add: eval_defs keys_of_def)

text \<open>
  Claim C10. The payload \<^verbatim>\<open>createVerification\<close> transmits always has the keys \<^verbatim>\<open>id\<close>,
  \<^verbatim>\<open>service_name\<close>, \<^verbatim>\<open>chain\<close>, \<^verbatim>\<open>one_time\<close>, \<^verbatim>\<open>custom_fields\<close>, \<^verbatim>\<open>token_gate\<close>,
  \<^verbatim>\<open>is_nft\<close> and the five \<^verbatim>\<open>force_<channel>_verification\<close> flags; a flag the caller left
  unset is transmitted as \<^verbatim>\<open>false\<close> and unset \<^verbatim>\<open>custom_fields\<close> as the empty array.
\<close>

theorem createVerification_payload_defaults:
  "requests (createVerification rt opts) = [(path, sent)] \<Longrightarrow>
     map_of sent ''id'' = Some (VString (id_field opts))
     \<and> map_of sent ''service_name'' = Some (VString (service_name opts))
     \<and> map_of sent ''chain'' = Some (VString (chain_field opts))
     \<and> map_of sent ''one_time'' = Some (VBool (default_to False (one_time opts)))
     \<and> map_of sent ''custom_fields'' = Some (VFields (default_to [] (custom_fields opts)))
     \<and> map_of sent ''token_gate'' = Some (VBool (default_to False (token_gate opts)))
     \<and> map_of sent ''is_nft'' = Some (VBool (default_to False (is_nft opts)))
     \<and> map_of sent ''force_email_verification''
          = Some (VBool (default_to False (force_email_verification opts)))
     \<and> map_of sent ''force_telegram_verification''
          = Some (VBool (default_to False (force_telegram_verification opts)))
     \<and> map_of sent ''force_twitter_verification''
          = Some (VBool (default_to False (force_twitter_verification opts)))
     \<and> map_of sent ''force_telephone_verification''
          = Some (VBool (default_to False (force_telephone_verification opts)))
     \<and> map_of sent ''force_discord_verification''
          = Some (VBool (default_to False (force_discord_verification opts)))"
proof -
  assume "requests (createVerification rt opts) = [(path, sent)]"
  then obtain fe where sent: "sent = strip_undefined (build_data opts fe)"
    using createVerification_sent by blast
  show ?thesis
    unfolding sent map_of_sent by (simp add: build_data_def)
qed

text \<open>With every optional field but \<^verbatim>\<open>folder_id\<close> unset, the defaults are transmitted.\<close>

theorem createVerification_payload_defaults_witness:
  "requests (createVerification ok_runtime folder_options) = [(''/new'', folder_payload)]
   \<and> one_time folder_options = None \<and> custom_fields folder_options = None
   \<and> token_gate folder_options = None \<and> is_nft folder_options = None
   \<and> force_email_verification folder_options = None
   \<and> map_of folder_payload ''id'' = Some (VString ''v1'')
   \<and> map_of folder_payload ''service_name'' = Some (VString ''Acme'')
   \<and> map_of folder_payload ''chain'' = Some (VString ''ETH'')
   \<and> map_of folder_payload ''one_time'' = Some (VBool False)
   \<and> map_of folder_payload ''custom_fields'' = Some (VFields [])
   \<and> map_of folder_payload ''token_gate'' = Some (VBool False)
   \<and> map_of folder_payload ''is_nft'' = Some (VBool False)
   \<and> map_of folder_payload ''force_email_verification'' = Some (VBool False)
   \<and> map_of folder_payload ''force_telegram_verification'' = Some (VBool False)
   \<and> map_of folder_payload ''force_twitter_verification'' = Some (VBool False)
   \<and> map_of folder_payload ''force_telephone_verification'' = Some (VBool False)
   \<and> map_of folder_payload ''force_discord_verification'' = Some (VBool False)"
  using createVerification_payload_defaults
      [of ok_runtime folder_options "''/new''" folder_payload]
  by (simp add: eval_defs)

section \<open>Constructing the client\<close>

text \<open>
  Claim C9, as amended. Constructing the client fails with the error
  \<^verbatim>\<open>API key is required. ...\<close> exactly when neither the API key argument nor the
  environment variable \<^verbatim>\<open>WALVER_API_KEY\<close> is a non-empty string (each is missing or
  empty); when the argument is a non-empty string construction succeeds with that key, and
  otherwise, when the environment variable is a non-empty string, it succeeds with the
  variable's value. The constructor only builds the client: it sends no request.
\<close>

theorem Walver_constructor_api_key:
  "(apiKey_arg \<in> {None, Some ''''} \<and> env_WALVER_API_KEY \<in> {None, Some ''''} \<longrightarrow>
      Walver_constructor apiKey_arg baseUrl_arg timeout_arg env_WALVER_API_KEY
        = Inl (Error
           ''API key is required. Either pass it as an argument or set the WALVER_API_KEY environment variable in .env file''))
   \<and> (\<forall>key. apiKey_arg = Some key \<and> key \<noteq> '''' \<longrightarrow>
        (\<exists>client. Walver_constructor apiKey_arg baseUrl_arg timeout_arg env_WALVER_API_KEY
                    = Inr client
           \<and> apiKey client = key \<and> client_headers client = [(''X-API-Key'', key)]))
   \<and> (\<forall>key. apiKey_arg \<in> {None, Some ''''} \<and> env_WALVER_API_KEY = Some key \<and> key \<noteq> '''' \<longrightarrow>
        (\<exists>client. Walver_constructor apiKey_arg baseUrl_arg timeout_arg env_WALVER_API_KEY
                    = Inr client
           \<and> apiKey client = key \<and> client_headers client = [(''X-API-Key'', key)]))"
  by (auto simp: Walver_constructor_def new_client_def truthy_def truthy_string_def Let_def
      split: option.splits)

text \<open>No key at all, a key as argument, and a key from the environment.\<close>

theorem Walver_constructor_api_key_witness:
  "Walver_constructor None None None None
     = Inl (Error
        ''API key is required. Either pass it as an argument or set the WALVER_API_KEY environment variable in .env file'')
   \<and> Walver_constructor (Some ''key-1'') None None None
     = Inr \<lparr>apiKey = ''key-1'', baseUrl = ''https://walver.io'', client_timeout = Finite 10000,
            client_headers = [(''X-API-Key'', ''key-1'')]\<rparr>
   \<and> Walver_constructor None None None (Some ''key-2'')
     = Inr \<lparr>apiKey = ''key-2'', baseUrl = ''https://walver.io'', client_timeout = Finite 10000,
            client_headers = [(''X-API-Key'', ''key-2'')]\<rparr>"
  using Walver_constructor_api_key [of None None None None]
    Walver_constructor_api_key [of "Some ''key-1''" None None None]
    Walver_constructor_api_key [of None "Some ''key-2''" None None]
  by (simp add: Walver_constructor_def new_client_def truthy_def truthy_string_def Let_def
      default_to_def endsWith_def)

text \<open>
  \<^verbatim>\<open>new Walver('')\<close> with the variable unset: an argument is supplied, and construction
  fails, because \<^verbatim>\<open>!apiKey\<close> is true of the empty string.
\<close>

theorem empty_api_key_counterexample:
  "Walver_constructor (Some '''') None None None
     = Inl (Error
        ''API key is required. Either pass it as an argument or set the WALVER_API_KEY environment variable in .env file'')"
  by (simp add: Walver_constructor_def truthy_def truthy_string_def Let_def)

end
